theory Spec2Isabelle
  imports Main "HOL-Library.Word"
begin

unbundle bit_operations_syntax

section \<open>Data model of the streamer (swarm/network/streamer.go)\<close>

text \<open>
  Go's \<open>byte\<close> and \<open>uint8\<close> are 8-bit words, \<open>uint64\<close> is a 64-bit word. Hash
  buffers, chunk data and bitvector encodings are byte lists. Stream names are Go strings;
  the sub-selector of a stream (\<open>Key []byte\<close> of the protocol messages) is written as a
  HOL string as well: a HOL character is one byte, so that Go's conversion
  \<open>string(req.Key)\<close> is the identity on it.
\<close>

type_synonym byte = "8 word"
type_synonym bytes = "byte list"
type_synonym uint8 = "8 word"
type_synonym uint64 = "64 word"

definition HashSize :: nat where
  "HashSize = 32"

text \<open>The priority levels \<open>Low\<close> .. \<open>Top\<close> and the number and capacity of the queues.
  The constant block starts with \<open>HashSize\<close>, so \<open>iota\<close> is 1 at \<open>Low\<close>.\<close>

definition Low :: uint8 where "Low = 1"
definition Mid :: uint8 where "Mid = 2"
definition High :: uint8 where "High = 3"
definition Top :: uint8 where "Top = 4"
definition PriorityQueue :: uint8 where "PriorityQueue = 5"
definition PriorityQueueCap :: nat where "PriorityQueueCap = 3"

text \<open>Every error return and every panic of the modelled code is a value of this type.\<close>

datatype error =
    StreamNotRegistered string      \<comment> \<open>"stream %v not registered"\<close>
  | StreamNotProvided string        \<comment> \<open>"stream '%v' not provided"\<close>
  | StreamAlreadyRegistered string  \<comment> \<open>"stream %v already registered"\<close>
  | PeerNotFound nat                \<comment> \<open>"peer not found %v"\<close>
  | NotFound                        \<comment> \<open>errors.New("not found")\<close>
  | InvalidLength                   \<comment> \<open>bitvector construction failure\<close>
  | QueueFull                       \<comment> \<open>priority queue push rejected\<close>
  | ChunkNotFound                   \<comment> \<open>chunk store lookup failure\<close>
  | HandlerError string             \<comment> \<open>an error returned by a pluggable stream handler\<close>
  | IndexOutOfRange                 \<comment> \<open>run-time panic: index or slice bound out of range\<close>
  | NilDereference                  \<comment> \<open>run-time panic: nil pointer dereference\<close>
  | TypeAssertionFailed             \<comment> \<open>run-time panic: interface conversion\<close>
  | CloseOfNilChannel               \<comment> \<open>run-time panic: close of nil channel\<close>
  | CloseOfClosedChannel            \<comment> \<open>run-time panic: close of closed channel\<close>

record Handover =
  Stream :: string
  Start :: uint64
  End :: uint64
  Root :: bytes

record HandoverProof = Handover +
  Sig :: bytes

type_synonym TakeoverProof = HandoverProof

record SubscribeMsg =
  sub_Stream :: string
  sub_Key :: string
  sub_From :: uint64
  sub_To :: uint64
  sub_Priority :: uint8

text \<open>\<open>UnsyncedKeysMsg\<close> embeds a \<open>*HandoverProof\<close>, which may be nil.\<close>

record UnsyncedKeysMsg =
  uk_Stream :: string
  uk_Key :: string
  uk_From :: uint64
  uk_To :: uint64
  uk_Hashes :: bytes
  uk_HandoverProof :: "HandoverProof option"

record ChunkDeliveryMsg =
  cd_Key :: bytes
  cd_SData :: "bytes option"
  cd_Id :: uint64

record WantedKeysMsg =
  wk_Stream :: string
  wk_Key :: string
  wk_Want :: bytes
  wk_From :: uint64
  wk_To :: uint64

record RetrieveRequestMsg =
  rr_Key :: bytes

datatype msg =
    MSubscribe SubscribeMsg
  | MUnsyncedKeys UnsyncedKeysMsg
  | MWantedKeys WantedKeysMsg
  | MTakeoverProof TakeoverProof
  | MChunkDelivery ChunkDeliveryMsg
  | MRetrieveRequest RetrieveRequestMsg

section \<open>Go slices: indexing that panics out of range\<close>

definition index_read :: "'a list \<Rightarrow> nat \<Rightarrow> error + 'a" where
  "index_read xs i = (if i < length xs then Inr (xs ! i) else Inl IndexOutOfRange)"

definition index_assign :: "'a list \<Rightarrow> nat \<Rightarrow> 'a \<Rightarrow> error + 'a list" where
  "index_assign xs i v = (if i < length xs then Inr (xs[i := v]) else Inl IndexOutOfRange)"

text \<open>\<open>xs[lo:hi]\<close>; the capacity of the buffer is taken to be its length.\<close>

definition slice :: "'a list \<Rightarrow> nat \<Rightarrow> nat \<Rightarrow> error + 'a list" where
  "slice xs lo hi =
     (if lo \<le> hi \<and> hi \<le> length xs then Inr (take (hi - lo) (drop lo xs))
      else Inl IndexOutOfRange)"

section \<open>Bitvector\<close>

text \<open>
  Modelled from the spec: the package \<open>swarm/network/bitvector\<close> (\<open>New\<close>,
  \<open>NewFromBytes\<close>, \<open>Set\<close>, \<open>Get\<close>, \<open>Bytes\<close>) is not among the sources. Section 4.1 of
  the specification: a fixed-length bit array; \<open>n_bits \<ge> 0\<close>; \<open>from_bytes\<close> requires
  \<open>len(buf) = ceil(n_bits/8)\<close>; bit \<open>i\<close> is stored in byte \<open>i/8\<close>, position \<open>i%8\<close>,
  least-significant first. \<open>Set\<close> and \<open>Get\<close> are only called below with an index inside
  the vector; outside it \<open>Set\<close> leaves the vector as it is and \<open>Get\<close> is false.
\<close>

record BitVector =
  bv_len :: nat
  bv_b :: bytes

definition bv_New :: "int \<Rightarrow> error + BitVector" where
  "bv_New l =
     (if l < 0 then Inl InvalidLength
      else Inr \<lparr>bv_len = nat l, bv_b = replicate ((nat l + 7) div 8) 0\<rparr>)"

definition bv_NewFromBytes :: "bytes \<Rightarrow> int \<Rightarrow> error + BitVector" where
  "bv_NewFromBytes buf l =
     (if l < 0 \<or> length buf \<noteq> (nat l + 7) div 8 then Inl InvalidLength
      else Inr \<lparr>bv_len = nat l, bv_b = buf\<rparr>)"

definition bv_Set :: "BitVector \<Rightarrow> nat \<Rightarrow> bool \<Rightarrow> BitVector" where
  "bv_Set v i x =
     (if i < bv_len v
      then v\<lparr>bv_b := (bv_b v)[i div 8 :=
             (if x then set_bit (i mod 8) (bv_b v ! (i div 8))
              else unset_bit (i mod 8) (bv_b v ! (i div 8)))]\<rparr>
      else v)"

definition bv_Get :: "BitVector \<Rightarrow> nat \<Rightarrow> bool" where
  "bv_Get v i = (i < bv_len v \<and> bit (bv_b v ! (i div 8)) (i mod 8))"

definition bv_Bytes :: "BitVector \<Rightarrow> bytes" where
  "bv_Bytes v = bv_b v"

section \<open>Priority queue\<close>

text \<open>
  Modelled from the spec: the package \<open>swarm/network/priorityqueue\<close> is not among the
  sources. Section 4.2 of the specification: \<open>new(levels, capacity)\<close> yields \<open>levels\<close>
  independent bounded FIFOs; \<open>push(item, prio)\<close> is the non-blocking fast path (the
  streamer always pushes with a nil context): if the target level has room, enqueue and
  return success; else return a "full" error.
\<close>

record PriorityQueue_t =
  Queues :: "msg list list"
  Cap :: nat

definition pq_New :: "nat \<Rightarrow> nat \<Rightarrow> PriorityQueue_t" where
  "pq_New levels capacity = \<lparr>Queues = replicate levels [], Cap = capacity\<rparr>"

definition pq_Push :: "PriorityQueue_t \<Rightarrow> msg \<Rightarrow> nat \<Rightarrow> error + PriorityQueue_t" where
  "pq_Push q x p =
     (if p < length (Queues q) \<and> length (Queues q ! p) < Cap q
      then Inr (q\<lparr>Queues := (Queues q)[p := Queues q ! p @ [x]]\<rparr>)
      else Inl QueueFull)"

section \<open>Chunks and the chunk store\<close>

text \<open>
  Modelled from the spec: the chunk type with its constructor \<open>NewChunk\<close> and
  \<open>DbAccess\<close> (\<open>get\<close>, \<open>put\<close>, \<open>getOrCreateRequest\<close>) are not among the sources. Section 3: a chunk is \<open>(key, data)\<close>
  with an optional pending completion signal, here the field \<open>ReqC\<close>, a channel given by
  its number or nil. Section 6: \<open>get(key) \<rightarrow> chunk | error\<close>, \<open>put(chunk)\<close>. Section
  4.5, \<open>get_or_create_request(key) \<rightarrow> (chunk, created)\<close>: if the key is present with
  data, return it with \<open>created = false\<close> and \<open>pending = nil\<close>; if absent, create a
  placeholder with a fresh one-shot pending signal, store it, and return
  \<open>created = true\<close>; if a request is in flight, return the existing placeholder with
  \<open>created = false\<close> and its existing pending signal.
\<close>

record Chunk =
  Key :: bytes
  SData :: "bytes option"
  ReqC :: "nat option"

definition NewChunk :: "bytes \<Rightarrow> nat option \<Rightarrow> Chunk" where
  "NewChunk key reqC = \<lparr>Key = key, SData = None, ReqC = reqC\<rparr>"

record DbAccess =
  chunks :: "bytes \<rightharpoonup> Chunk"
  fresh_chan :: nat

definition db_get :: "DbAccess \<Rightarrow> bytes \<Rightarrow> error + Chunk" where
  "db_get db key = (case chunks db key of None \<Rightarrow> Inl ChunkNotFound | Some c \<Rightarrow> Inr c)"

definition db_put :: "DbAccess \<Rightarrow> Chunk \<Rightarrow> DbAccess" where
  "db_put db c = db\<lparr>chunks := (chunks db)(Key c \<mapsto> c)\<rparr>"

definition getOrCreateRequest :: "DbAccess \<Rightarrow> bytes \<Rightarrow> (Chunk \<times> bool) \<times> DbAccess" where
  "getOrCreateRequest db key =
     (case chunks db key of
        Some c \<Rightarrow>
          (if SData c \<noteq> None then ((c\<lparr>ReqC := None\<rparr>, False), db) else ((c, False), db))
      | None \<Rightarrow>
          (let c = NewChunk key (Some (fresh_chan db))
           in ((c, True), db\<lparr>chunks := (chunks db)(key \<mapsto> c), fresh_chan := Suc (fresh_chan db)\<rparr>)))"

section \<open>Per-peer stream handlers\<close>

text \<open>
  The pluggable interfaces. A wait function returned by \<open>NeedData\<close> is identified by a
  number; \<open>BatchDone\<close> returns nil (\<open>None\<close>) or a finalizer, given by the result it
  produces when invoked. The handler of the retrieve-request stream has the dynamic type
  \<open>*RetrieveRequestStreamer\<close> and owns the channel \<open>deliveryC\<close>, given by the chunks
  sent on it; for a handler of any other type the field is \<open>None\<close>.
\<close>

type_synonym waitfn = nat

record IncomingStreamer =
  NeedData :: "bytes \<Rightarrow> waitfn option"
  BatchDone :: "string \<Rightarrow> uint64 \<Rightarrow> bytes \<Rightarrow> bytes \<Rightarrow> (error + TakeoverProof) option"

record OutgoingStreamer =
  SetNextBatch :: "uint64 \<Rightarrow> uint64 \<Rightarrow> error + (bytes \<times> uint64 \<times> uint64 \<times> HandoverProof option)"
  GetData :: "bytes \<Rightarrow> bytes option"
  deliveryC :: "Chunk list option"

record outgoingStreamer =
  os_handler :: OutgoingStreamer
  os_priority :: uint8
  currentBatch :: bytes

text \<open>
  \<open>next\<close> is a channel of capacity 1, given by the number of signals it holds; \<open>quit\<close>
  and \<open>intervals\<close> are never assigned by \<open>setIncomingStreamer\<close> and stay nil.
\<close>

record incomingStreamer =
  is_handler :: IncomingStreamer
  is_priority :: uint8
  sessionAt :: uint64
  live :: bool
  next_signals :: nat

subsection \<open>nextBatch\<close>

text \<open>
  The local slice \<open>intervals\<close> is declared without a value (nil, of length 0) and is the
  only one the function reads; the assignment to the handler's intervals is commented out
  in the source. The named results \<open>nextFrom\<close>, \<open>nextTo\<close> start at 0.
\<close>

definition nextBatch :: "incomingStreamer \<Rightarrow> uint64 \<Rightarrow> error + (uint64 \<times> uint64)" where
  "nextBatch self from =
     (let intervals = ([] :: uint64 list) in
      if live self then
        (case (if length intervals = 0 then Inr [sessionAt self, from]
               else index_assign intervals 1 from) of
           Inl e \<Rightarrow> Inl e
         | Inr intervals' \<Rightarrow> Inr (from, 0))
      else if sessionAt self \<le> from then Inr (0, 0)
      else if 2 < length intervals \<and> intervals ! 2 \<le> from then
        (let intervals' = take 1 intervals @ drop 3 intervals in
         case index_read intervals' 1 of
           Inl e \<Rightarrow> Inl e
         | Inr nextFrom \<Rightarrow>
             if 2 < length intervals' then Inr (nextFrom, intervals' ! 2)
             else Inr (nextFrom, sessionAt self))
      else
        (case index_assign intervals 1 from of
           Inl e \<Rightarrow> Inl e
         | Inr intervals' \<Rightarrow> Inr (from, sessionAt self)))"



section \<open>Per-peer state and the stream-type registry\<close>

text \<open>
  A peer is identified by a number. The constructors of the registry receive the peer
  (by its number) and the stream key. The chunk store is reached through \<open>dbAccess\<close>.
\<close>

record StreamerPeer =
  ID :: nat
  pq :: PriorityQueue_t
  dbAccess :: DbAccess
  outgoing :: "string \<rightharpoonup> outgoingStreamer"
  incoming :: "string \<rightharpoonup> incomingStreamer"

record Streamer =
  reg_outgoing :: "string \<rightharpoonup> (nat \<Rightarrow> string \<Rightarrow> error + OutgoingStreamer)"
  reg_incoming :: "string \<rightharpoonup> (nat \<Rightarrow> string \<Rightarrow> error + IncomingStreamer)"
  peers :: "nat \<rightharpoonup> StreamerPeer"

text \<open>
  The goroutines a handler starts with \<open>go\<close>, in the order it starts them. An outgoing or
  incoming handler is passed to a goroutine as a pointer; here it is named by the key of
  its entry in the peer's map.
\<close>

datatype task =
    GoSendUnsyncedKeys string uint64 uint64
      \<comment> \<open>\<open>go self.SendUnsyncedKeys(os, from, to)\<close>\<close>
  | GoWaiter waitfn
      \<comment> \<open>\<open>go func(w) { w(); wg.Done() }(wait)\<close>\<close>
  | GoBatchDone string UnsyncedKeysMsg nat
      \<comment> \<open>the goroutine that waits for the given number of waiters, calls \<open>BatchDone\<close>
          and signals \<open>next\<close>\<close>
  | GoSendWantedKeys string WantedKeysMsg
      \<comment> \<open>the goroutine that sends the message once \<open>next\<close> is signalled\<close>
  | GoAwaitDelivery Chunk
      \<comment> \<open>the goroutine that waits for \<open>chunk.ReqC\<close>, the peer's quit or 3 minutes\<close>

definition GetIncomingStreamer ::
  "Streamer \<Rightarrow> string \<Rightarrow> error + (nat \<Rightarrow> string \<Rightarrow> error + IncomingStreamer)" where
  "GetIncomingStreamer self stream =
     (case reg_incoming self stream of
        None \<Rightarrow> Inl (StreamNotRegistered stream)
      | Some f \<Rightarrow> Inr f)"

definition GetOutgoingStreamer ::
  "Streamer \<Rightarrow> string \<Rightarrow> error + (nat \<Rightarrow> string \<Rightarrow> error + OutgoingStreamer)" where
  "GetOutgoingStreamer self stream =
     (case reg_outgoing self stream of
        None \<Rightarrow> Inl (StreamNotRegistered stream)
      | Some f \<Rightarrow> Inr f)"

definition getPeer :: "Streamer \<Rightarrow> nat \<Rightarrow> StreamerPeer option" where
  "getPeer self peerId = peers self peerId"

definition getOutgoingStreamer :: "StreamerPeer \<Rightarrow> string \<Rightarrow> error + outgoingStreamer" where
  "getOutgoingStreamer self s =
     (case outgoing self s of
        None \<Rightarrow> Inl (StreamNotProvided s)
      | Some streamer \<Rightarrow> Inr streamer)"

definition getIncomingStreamer :: "StreamerPeer \<Rightarrow> string \<Rightarrow> error + incomingStreamer" where
  "getIncomingStreamer self s =
     (case incoming self s of
        None \<Rightarrow> Inl (StreamNotProvided s)
      | Some streamer \<Rightarrow> Inr streamer)"

definition setOutgoingStreamer ::
  "StreamerPeer \<Rightarrow> string \<Rightarrow> OutgoingStreamer \<Rightarrow> uint8 \<Rightarrow> error + (outgoingStreamer \<times> StreamerPeer)" where
  "setOutgoingStreamer self s o' priority =
     (if outgoing self s \<noteq> None then Inl (StreamAlreadyRegistered s)
      else
        (let os = \<lparr>os_handler = o', os_priority = priority, currentBatch = []\<rparr>
         in Inr (os, self\<lparr>outgoing := (outgoing self)(s \<mapsto> os)\<rparr>)))"

text \<open>The channel \<open>next\<close> is made with capacity 1 and receives one signal at once.\<close>

definition setIncomingStreamer ::
  "StreamerPeer \<Rightarrow> string \<Rightarrow> IncomingStreamer \<Rightarrow> uint8 \<Rightarrow> bool \<Rightarrow> error + StreamerPeer" where
  "setIncomingStreamer self s i priority live' =
     (if incoming self s \<noteq> None then Inl (StreamAlreadyRegistered s)
      else Inr (self\<lparr>incoming := (incoming self)(s \<mapsto>
             \<lparr>is_handler = i, is_priority = priority, sessionAt = 0, live = live',
              next_signals = 1\<rparr>)\<rparr>))"

subsection \<open>Sending\<close>

text \<open>\<open>SendPriority\<close> and \<open>Deliver\<close> push on the peer's queue with a nil context.\<close>

definition SendPriority :: "StreamerPeer \<Rightarrow> msg \<Rightarrow> uint8 \<Rightarrow> error option \<times> StreamerPeer" where
  "SendPriority self m priority =
     (case pq_Push (pq self) m (unat priority) of
        Inl err \<Rightarrow> (Some err, self)
      | Inr q \<Rightarrow> (None, self\<lparr>pq := q\<rparr>))"

definition Deliver :: "StreamerPeer \<Rightarrow> Chunk \<Rightarrow> uint8 \<Rightarrow> error option \<times> StreamerPeer" where
  "Deliver self chunk priority =
     (let m = \<lparr>cd_Key = Key chunk, cd_SData = SData chunk, cd_Id = 0\<rparr>
      in case pq_Push (pq self) (MChunkDelivery m) (unat priority) of
           Inl err \<Rightarrow> (Some err, self)
         | Inr q \<Rightarrow> (None, self\<lparr>pq := q\<rparr>))"

text \<open>
  \<open>SendUnsyncedKeys\<close> receives the outgoing handler as a pointer; the model takes the
  handler and returns it updated, beside the peer. The composite literal of the message
  sets \<open>HandoverProof\<close>, \<open>Hashes\<close>, \<open>From\<close> and \<open>To\<close>; \<open>Stream\<close> and \<open>Key\<close> keep
  their zero values.
\<close>

definition SendUnsyncedKeys ::
  "StreamerPeer \<Rightarrow> outgoingStreamer \<Rightarrow> uint64 \<Rightarrow> uint64
     \<Rightarrow> error option \<times> outgoingStreamer \<times> StreamerPeer" where
  "SendUnsyncedKeys self s f t =
     (case SetNextBatch (os_handler s) f t of
        Inl err \<Rightarrow> (Some err, s, self)
      | Inr (hashes, from, to, proof) \<Rightarrow>
          (let s' = s\<lparr>currentBatch := hashes\<rparr>;
               m = \<lparr>uk_Stream = [], uk_Key = [], uk_From = from, uk_To = to,
                    uk_Hashes = hashes, uk_HandoverProof = proof\<rparr>
           in case SendPriority self (MUnsyncedKeys m) (os_priority s') of
                (err, self') \<Rightarrow> (err, s', self')))"


section \<open>Subscribing\<close>

text \<open>
  \<open>Subscribe\<close> registers the incoming handler under the stream name \<open>s\<close> and ignores
  the result of \<open>SendPriority\<close>.
\<close>

definition Subscribe ::
  "Streamer \<Rightarrow> nat \<Rightarrow> string \<Rightarrow> string \<Rightarrow> uint64 \<Rightarrow> uint64 \<Rightarrow> uint8 \<Rightarrow> bool
     \<Rightarrow> error option \<times> Streamer" where
  "Subscribe self peerId s t from to priority live' =
     (case GetIncomingStreamer self s of
        Inl err \<Rightarrow> (Some err, self)
      | Inr f \<Rightarrow>
          (case getPeer self peerId of
             None \<Rightarrow> (Some (PeerNotFound peerId), self)
           | Some peer \<Rightarrow>
               (case f peerId t of
                  Inl err \<Rightarrow> (Some err, self)
                | Inr is \<Rightarrow>
                    (case setIncomingStreamer peer s is priority live' of
                       Inl err \<Rightarrow> (Some err, self)
                     | Inr peer' \<Rightarrow>
                         (let m = \<lparr>sub_Stream = s, sub_Key = t, sub_From = from, sub_To = to,
                                   sub_Priority = priority\<rparr>;
                              peer'' = snd (SendPriority peer' (MSubscribe m) priority)
                          in (None, self\<lparr>peers := (peers self)(peerId \<mapsto> peer'')\<rparr>))))))"

text \<open>
  \<open>handleSubscribeMsg\<close> registers the outgoing handler under \<open>req.Stream + string(req.Key)\<close>
  and returns nil when that registration fails.
\<close>

definition handleSubscribeMsg ::
  "Streamer \<Rightarrow> StreamerPeer \<Rightarrow> SubscribeMsg \<Rightarrow> error option \<times> StreamerPeer \<times> task list" where
  "handleSubscribeMsg streamer self req =
     (case GetOutgoingStreamer streamer (sub_Stream req) of
        Inl err \<Rightarrow> (Some err, self, [])
      | Inr f \<Rightarrow>
          (case f (ID self) (sub_Key req) of
             Inl err \<Rightarrow> (Some err, self, [])
           | Inr s \<Rightarrow>
               (let key = sub_Stream req @ sub_Key req
                in case setOutgoingStreamer self key s (sub_Priority req) of
                     Inl err \<Rightarrow> (None, self, [])
                   | Inr (os, self') \<Rightarrow>
                       (None, self', [GoSendUnsyncedKeys key (sub_From req) (sub_To req)]))))"

section \<open>The UnsyncedKeys exchange\<close>

text \<open>
  The loop of \<open>handleUnsyncedKeysMsg\<close>:
  \<^verbatim>\<open>for i := 0; i < len(hashes)/HashSize; i += HashSize {
      hash := hashes[i : i+HashSize]
      if wait := s.NeedData(hash); wait != nil { want.Set(i, true); wg.Add(1); go ... }
  }\<close>
  It returns the bitvector, the wait functions handed to goroutines and the hashes passed
  to \<open>NeedData\<close>, in the order of the calls.
\<close>

function needLoop ::
  "IncomingStreamer \<Rightarrow> bytes \<Rightarrow> nat \<Rightarrow> BitVector \<Rightarrow> waitfn list \<Rightarrow> bytes list
     \<Rightarrow> error + (BitVector \<times> waitfn list \<times> bytes list)" where
  "needLoop s hashes i want waits consulted =
     (if i < length hashes div HashSize then
        (case slice hashes i (i + HashSize) of
           Inl e \<Rightarrow> Inl e
         | Inr hash \<Rightarrow>
             (case NeedData s hash of
                None \<Rightarrow> needLoop s hashes (i + HashSize) want waits (consulted @ [hash])
              | Some wait \<Rightarrow>
                  needLoop s hashes (i + HashSize) (bv_Set want i True) (waits @ [wait])
                    (consulted @ [hash])))
      else Inr (want, waits, consulted))"
  by pat_completeness auto
termination
  by (relation "measure (\<lambda>(s, hashes, i, want, waits, consulted). length hashes div HashSize - i)")
     (auto simp: HashSize_def)

declare needLoop.simps [simp del]

text \<open>
  The handler. The incoming handler is looked up under \<open>req.Stream\<close>. In live mode the
  session mark of the handler is set to \<open>req.From\<close>. A panic of \<open>nextBatch\<close> leaves the
  goroutines already started running. The reply carries \<open>Stream\<close>, \<open>Want\<close>, \<open>From\<close> and
  \<open>To\<close>; its \<open>Key\<close> keeps the zero value.
\<close>

definition handleUnsyncedKeysMsg ::
  "StreamerPeer \<Rightarrow> UnsyncedKeysMsg \<Rightarrow> error option \<times> StreamerPeer \<times> task list" where
  "handleUnsyncedKeysMsg self req =
     (case getIncomingStreamer self (uk_Stream req) of
        Inl err \<Rightarrow> (Some err, self, [])
      | Inr s \<Rightarrow>
          (let hashes = uk_Hashes req in
           case bv_New (int (length hashes div HashSize)) of
             Inl err \<Rightarrow> (Some err, self, [])
           | Inr want0 \<Rightarrow>
               (case needLoop (is_handler s) hashes 0 want0 [] [] of
                  Inl err \<Rightarrow> (Some err, self, [])
                | Inr (want, waits, consulted) \<Rightarrow>
                    (let started = map GoWaiter waits @
                                   [GoBatchDone (uk_Stream req) req (length waits)];
                         s' = (if live s then s\<lparr>sessionAt := uk_From req\<rparr> else s);
                         self' = self\<lparr>incoming := (incoming self)(uk_Stream req \<mapsto> s')\<rparr>
                     in case nextBatch s' (uk_To req) of
                          Inl err \<Rightarrow> (Some err, self', started)
                        | Inr (from, to) \<Rightarrow>
                            if from = to then (None, self', started)
                            else
                              (let m = \<lparr>wk_Stream = uk_Stream req, wk_Key = [],
                                        wk_Want = bv_Bytes want, wk_From = from, wk_To = to\<rparr>
                               in (None, self',
                                   started @ [GoSendWantedKeys (uk_Stream req) m]))))))"

text \<open>The \<open>i\<close>-th offered hash of a buffer, \<open>hashes[i*HashSize : (i+1)*HashSize]\<close>.\<close>

definition hash_at :: "bytes \<Rightarrow> nat \<Rightarrow> bytes" where
  "hash_at hashes i = take HashSize (drop (i * HashSize) hashes)"


section \<open>The WantedKeys response\<close>

text \<open>
  The loop of \<open>handleWantedKeysMsg\<close>, \<open>for i := 0; i < l; i++\<close>, over the indices it
  has still to visit. It returns the error, the peer with the deliveries pushed, and the
  hashes passed to \<open>GetData\<close> in the order of the calls. A nil result of \<open>GetData\<close> and a
  rejected push both end the loop.
\<close>

fun deliverLoop ::
  "StreamerPeer \<Rightarrow> outgoingStreamer \<Rightarrow> bytes \<Rightarrow> BitVector \<Rightarrow> nat list \<Rightarrow> bytes list
     \<Rightarrow> error option \<times> StreamerPeer \<times> bytes list" where
  "deliverLoop self s hashes want [] fetched = (None, self, fetched)"
| "deliverLoop self s hashes want (i # rest) fetched =
     (if bv_Get want i then
        (case slice hashes (i * HashSize) ((i + 1) * HashSize) of
           Inl e \<Rightarrow> (Some e, self, fetched)
         | Inr hash \<Rightarrow>
             (case GetData (os_handler s) hash of
                None \<Rightarrow> (Some NotFound, self, fetched @ [hash])
              | Some data \<Rightarrow>
                  (let chunk = (NewChunk hash None)\<lparr>SData := Some data\<rparr>
                   in case Deliver self chunk (os_priority s) of
                        (Some err, self') \<Rightarrow> (Some err, self', fetched @ [hash])
                      | (None, self') \<Rightarrow>
                          deliverLoop self' s hashes want rest (fetched @ [hash]))))
      else deliverLoop self s hashes want rest fetched)"

text \<open>The outgoing handler is looked up under \<open>req.Stream\<close>.\<close>

definition handleWantedKeysMsg ::
  "StreamerPeer \<Rightarrow> WantedKeysMsg \<Rightarrow> error option \<times> StreamerPeer \<times> task list \<times> bytes list" where
  "handleWantedKeysMsg self req =
     (case getOutgoingStreamer self (wk_Stream req) of
        Inl err \<Rightarrow> (Some err, self, [], [])
      | Inr s \<Rightarrow>
          (let hashes = currentBatch s;
               started = [GoSendUnsyncedKeys (wk_Stream req) (wk_From req) (wk_To req)];
               l = length hashes div HashSize
           in case bv_NewFromBytes (wk_Want req) (int l) of
                Inl err \<Rightarrow> (Some err, self, started, [])
              | Inr want \<Rightarrow>
                  (case deliverLoop self s hashes want [0..<l] [] of
                     (err, self', fetched) \<Rightarrow> (err, self', started, fetched))))"

definition handleTakeoverProofMsg :: "StreamerPeer \<Rightarrow> TakeoverProof \<Rightarrow> error option" where
  "handleTakeoverProofMsg self req =
     (case getOutgoingStreamer self (Stream req) of
        Inl err \<Rightarrow> Some err
      | Inr s \<Rightarrow> None)"

section \<open>Retrieve requests\<close>

text \<open>
  Modelled from the spec: the overlay is not among the sources. Section 4.6:
  \<open>EachConn(key, 255, fn)\<close> invokes \<open>fn\<close> for each connected peer in proximity order
  until \<open>fn\<close> returns false. The connected peers, in that order for the key at hand, are a
  list of \<open>StreamerPeer\<close>s (the callback of \<open>Retrieve\<close> asserts that type); the peers are
  returned as the callback leaves them.
\<close>

fun EachConn :: "'c list \<Rightarrow> ('c \<Rightarrow> 'c \<times> bool) \<Rightarrow> 'c list" where
  "EachConn [] f = []"
| "EachConn (p # ps) f =
     (case f p of (p', continue) \<Rightarrow> if continue then p' # EachConn ps f else p' # ps)"

text \<open>The callback drops the result of \<open>SendPriority\<close> and returns false.\<close>

definition Retrieve :: "StreamerPeer list \<Rightarrow> Chunk \<Rightarrow> error option \<times> StreamerPeer list" where
  "Retrieve conns chunk =
     (None,
      EachConn conns
        (\<lambda>sp. (snd (SendPriority sp (MRetrieveRequest \<lparr>rr_Key = Key chunk\<rparr>) Top), False)))"

text \<open>
  \<open>handleRetrieveRequestMsg\<close>. The name of the retrieve-request stream is a constant that
  is not among the sources; it is the first argument. The second argument is the peers the
  overlay enumerates for the requested key.
\<close>

definition handleRetrieveRequestMsg ::
  "string \<Rightarrow> StreamerPeer list \<Rightarrow> StreamerPeer \<Rightarrow> RetrieveRequestMsg
     \<Rightarrow> error option \<times> StreamerPeer \<times> StreamerPeer list \<times> task list" where
  "handleRetrieveRequestMsg retrieveRequestStream conns self req =
     (case getOrCreateRequest (dbAccess self) (rr_Key req) of
        ((chunk, created), db') \<Rightarrow>
          (let self1 = self\<lparr>dbAccess := db'\<rparr> in
           case getOutgoingStreamer self1 retrieveRequestStream of
             Inl err \<Rightarrow> (Some err, self1, conns, [])
           | Inr s \<Rightarrow>
               (case deliveryC (os_handler s) of
                  None \<Rightarrow> (Some TypeAssertionFailed, self1, conns, [])
                | Some sent \<Rightarrow>
                    if ReqC chunk \<noteq> None then
                      (if created then
                         (case Retrieve conns chunk of
                            (Some err, conns') \<Rightarrow> (Some err, self1, conns', [])
                          | (None, conns') \<Rightarrow> (None, self1, conns', [GoAwaitDelivery chunk]))
                       else (None, self1, conns, [GoAwaitDelivery chunk]))
                    else
                      (let s' = s\<lparr>os_handler := (os_handler s)\<lparr>deliveryC := Some (sent @ [chunk])\<rparr>\<rparr>
                       in (None,
                           self1\<lparr>outgoing := (outgoing self1)(retrieveRequestStream \<mapsto> s')\<rparr>,
                           conns, [])))))"

section \<open>The receive loop\<close>

text \<open>
  The state of \<open>processReceivedChunks\<close>: the chunk store, the channels closed so far, and
  the store writes and channel closes in the order they happen.
\<close>

datatype event = EvPut Chunk | EvClose nat

record RecvState =
  rs_db :: DbAccess
  closed :: "nat set"
  events :: "event list"

text \<open>One iteration, for the delivery \<open>req\<close> taken from \<open>receiveC\<close>.\<close>

definition processReceived :: "RecvState \<Rightarrow> ChunkDeliveryMsg \<Rightarrow> error option \<times> RecvState" where
  "processReceived st req =
     (case db_get (rs_db st) (cd_Key req) of
        Inl err \<Rightarrow> (None, st)
      | Inr chunk \<Rightarrow>
          (let chunk' = chunk\<lparr>SData := cd_SData req\<rparr>;
               st1 = st\<lparr>rs_db := db_put (rs_db st) chunk', events := events st @ [EvPut chunk']\<rparr>
           in case ReqC chunk' of
                None \<Rightarrow> (Some CloseOfNilChannel, st1)
              | Some ch \<Rightarrow>
                  if ch \<in> closed st1 then (Some CloseOfClosedChannel, st1)
                  else (None, st1\<lparr>closed := insert ch (closed st1),
                                  events := events st1 @ [EvClose ch]\<rparr>)))"

text \<open>
  The loop runs forever; the model runs it over the deliveries that arrive on
  \<open>receiveC\<close> and returns the state in which it blocks on the empty channel, or the
  panic that ends it.
\<close>

fun processReceivedChunks :: "RecvState \<Rightarrow> ChunkDeliveryMsg list \<Rightarrow> error option \<times> RecvState" where
  "processReceivedChunks st [] = (None, st)"
| "processReceivedChunks st (req # reqs) =
     (case processReceived st req of
        (Some err, st') \<Rightarrow> (Some err, st')
      | (None, st') \<Rightarrow> processReceivedChunks st' reqs)"

text \<open>Every close in a sequence of events directly follows the write of the chunk that
  owns the closed channel.\<close>

fun put_before_close :: "event list \<Rightarrow> bool" where
  "put_before_close [] = True"
| "put_before_close (EvClose ch # es) = False"
| "put_before_close [EvPut c] = True"
| "put_before_close (EvPut c # EvClose ch # es) = (ReqC c = Some ch \<and> put_before_close es)"
| "put_before_close (EvPut c # EvPut c' # es) = put_before_close (EvPut c' # es)"


section \<open>Concrete inputs\<close>

text \<open>Three hashes, and an empty peer as \<open>NewStreamerPeer\<close> makes it.\<close>

definition hash1 :: bytes where "hash1 = replicate 32 1"
definition hash2 :: bytes where "hash2 = replicate 32 2"
definition hash3 :: bytes where "hash3 = replicate 32 3"

definition empty_db :: DbAccess where
  "empty_db = \<lparr>chunks = Map.empty, fresh_chan = 0\<rparr>"

definition new_peer :: "nat \<Rightarrow> StreamerPeer" where
  "new_peer n =
     \<lparr>ID = n, pq = pq_New (unat PriorityQueue) PriorityQueueCap, dbAccess = empty_db,
      outgoing = Map.empty, incoming = Map.empty\<rparr>"

text \<open>
  The live subscription of the specification's second end-to-end scenario: the upstream
  offers \<open>hash1, hash2, hash3\<close> for the indices 10 to 12, and \<open>NeedData\<close> returns a wait
  function for \<open>hash1\<close> and \<open>hash3\<close> and nil for \<open>hash2\<close>.
\<close>

definition live_handler :: IncomingStreamer where
  "live_handler =
     \<lparr>NeedData = (\<lambda>h. if h = hash1 then Some 1 else if h = hash3 then Some 3 else None),
      BatchDone = (\<lambda>name from hashes root. None)\<rparr>"

definition live_peer :: StreamerPeer where
  "live_peer =
     (new_peer 7)\<lparr>incoming := [''live'' \<mapsto>
        \<lparr>is_handler = live_handler, is_priority = Mid, sessionAt = 0, live = True,
         next_signals = 1\<rparr>]\<rparr>"

definition live_offer :: UnsyncedKeysMsg where
  "live_offer =
     \<lparr>uk_Stream = ''live'', uk_Key = [], uk_From = 10, uk_To = 12,
      uk_Hashes = hash1 @ hash2 @ hash3, uk_HandoverProof = None\<rparr>"

text \<open>
  An upstream stream type \<open>sync\<close>: its handler offers the three hashes as one batch and
  has data for \<open>hash2\<close> only. The registry knows the type in both directions and the
  peer 7.
\<close>

definition sync_source :: OutgoingStreamer where
  "sync_source =
     \<lparr>SetNextBatch = (\<lambda>f t. Inr (hash1 @ hash2 @ hash3, 10, 12, None)),
      GetData = (\<lambda>h. if h = hash2 then Some [42] else None),
      deliveryC = None\<rparr>"

definition sync_registry :: Streamer where
  "sync_registry =
     \<lparr>reg_outgoing = [''sync'' \<mapsto> (\<lambda>p k. Inr sync_source)],
      reg_incoming = [''sync'' \<mapsto> (\<lambda>p k. Inr live_handler)],
      peers = [7 \<mapsto> new_peer 7]\<rparr>"

text \<open>A subscription to the stream \<open>sync\<close> with the key \<open>k\<close>, and the peer that has
  handled it.\<close>

definition subscribe_k :: SubscribeMsg where
  "subscribe_k =
     \<lparr>sub_Stream = ''sync'', sub_Key = ''k'', sub_From = 0, sub_To = 0, sub_Priority = Mid\<rparr>"

definition served_peer :: StreamerPeer where
  "served_peer = fst (snd (handleSubscribeMsg sync_registry (new_peer 7) subscribe_k))"

definition served_os :: outgoingStreamer where
  "served_os = \<lparr>os_handler = sync_source, os_priority = Mid, currentBatch = []\<rparr>"

text \<open>A peer whose outgoing stream \<open>sync\<close> has offered the three hashes, and the reply
  to that offer with a given want vector.\<close>

definition wanted_peer :: StreamerPeer where
  "wanted_peer =
     (new_peer 7)\<lparr>outgoing := [''sync'' \<mapsto>
        \<lparr>os_handler = sync_source, os_priority = Mid, currentBatch = hash1 @ hash2 @ hash3\<rparr>]\<rparr>"

definition want_reply :: "bytes \<Rightarrow> WantedKeysMsg" where
  "want_reply w = \<lparr>wk_Stream = ''sync'', wk_Key = [], wk_Want = w, wk_From = 12, wk_To = 0\<rparr>"

text \<open>A peer on which both directions of \<open>sync\<close> are registered already.\<close>

definition dup_peer :: StreamerPeer where
  "dup_peer =
     (new_peer 7)\<lparr>outgoing := [''synck'' \<mapsto> served_os],
                  incoming := [''sync'' \<mapsto>
        \<lparr>is_handler = live_handler, is_priority = Mid, sessionAt = 0, live = False,
         next_signals = 1\<rparr>]\<rparr>"


text \<open>A store that holds a placeholder for \<open>hash1\<close> with the open channel 0 and a
  chunk with data and no channel for \<open>hash3\<close>, and a delivery of one byte for a key.\<close>

definition pending_chunk :: Chunk where
  "pending_chunk = NewChunk hash1 (Some 0)"

definition stored_chunk :: Chunk where
  "stored_chunk = (NewChunk hash3 None)\<lparr>SData := Some [7]\<rparr>"

definition recv_state :: RecvState where
  "recv_state =
     \<lparr>rs_db = \<lparr>chunks = [hash1 \<mapsto> pending_chunk, hash3 \<mapsto> stored_chunk], fresh_chan = 1\<rparr>,
      closed = {}, events = []\<rparr>"

definition delivery_for :: "bytes \<Rightarrow> ChunkDeliveryMsg" where
  "delivery_for h = \<lparr>cd_Key = h, cd_SData = Some [42], cd_Id = 0\<rparr>"

text \<open>A peer whose queue of priority \<open>Top\<close> is full.\<close>

definition full_peer :: StreamerPeer where
  "full_peer =
     (new_peer 9)\<lparr>pq := \<lparr>Queues = [[], [], [], [],
        replicate 3 (MRetrieveRequest \<lparr>rr_Key = hash2\<rparr>)], Cap = PriorityQueueCap\<rparr>\<rparr>"

section \<open>What the WantedKeys handler is to deliver\<close>

text \<open>
  The vocabulary of the statement about \<open>handleWantedKeysMsg\<close>: the room left on a
  priority level, a peer with messages appended to a level, the delivery for the \<open>i\<close>-th
  hash of a batch, the indices whose bit is set, and the longest prefix of them for which
  \<open>GetData\<close> has data.
\<close>

definition room :: "StreamerPeer \<Rightarrow> uint8 \<Rightarrow> nat" where
  "room self priority =
     (if unat priority < length (Queues (pq self))
      then Cap (pq self) - length (Queues (pq self) ! unat priority) else 0)"

definition enqueue_all :: "StreamerPeer \<Rightarrow> uint8 \<Rightarrow> msg list \<Rightarrow> StreamerPeer" where
  "enqueue_all self priority ms =
     self\<lparr>pq := (pq self)\<lparr>Queues := (Queues (pq self))[unat priority :=
        Queues (pq self) ! unat priority @ ms]\<rparr>\<rparr>"

definition delivery_of :: "outgoingStreamer \<Rightarrow> bytes \<Rightarrow> nat \<Rightarrow> msg" where
  "delivery_of s hashes i =
     MChunkDelivery \<lparr>cd_Key = hash_at hashes i,
                     cd_SData = GetData (os_handler s) (hash_at hashes i), cd_Id = 0\<rparr>"

definition wanted_indices :: "BitVector \<Rightarrow> nat list \<Rightarrow> nat list" where
  "wanted_indices want is = filter (bv_Get want) is"

definition served_indices :: "outgoingStreamer \<Rightarrow> bytes \<Rightarrow> nat list \<Rightarrow> nat list" where
  "served_indices s hashes is =
     takeWhile (\<lambda>i. GetData (os_handler s) (hash_at hashes i) \<noteq> None) is"

section \<open>The goroutines of handleUnsyncedKeysMsg\<close>

text \<open>
  A goroutine of the handler is the task it was started with and the number of the offer
  (the batch) that started it. The goroutine that calls \<open>BatchDone\<close> has a second
  blocking point, the send \<open>s.next <- struct{}{}\<close>; it is \<open>Signalling\<close> there.
\<close>

datatype goroutine = Started nat task | Signalling nat string

text \<open>What has happened, in order.\<close>

datatype occurrence =
    Resolved nat
  | BatchDoneCalled nat
  | TakeoverSent nat
  | Signalled string nat
  | WantedKeysSent string nat WantedKeysMsg

text \<open>
  The peer, the counter of the \<open>WaitGroup\<close> of each handled offer, the goroutines that
  have not finished, the panic that ended the program if any, and what has happened.
\<close>

record run =
  r_peer :: StreamerPeer
  wg :: "nat list"
  goroutines :: "goroutine list"
  panicked :: "error option"
  log :: "occurrence list"

definition remove_nth :: "nat \<Rightarrow> 'a list \<Rightarrow> 'a list" where
  "remove_nth i xs = take i xs @ drop (Suc i) xs"

definition set_signals :: "StreamerPeer \<Rightarrow> string \<Rightarrow> incomingStreamer \<Rightarrow> nat \<Rightarrow> StreamerPeer" where
  "set_signals p k s n = p\<lparr>incoming := (incoming p)(k \<mapsto> s\<lparr>next_signals := n\<rparr>)\<rparr>"

fun is_waiter :: "task \<Rightarrow> bool" where
  "is_waiter (GoWaiter w) = True"
| "is_waiter t = False"

fun is_panic :: "error \<Rightarrow> bool" where
  "is_panic IndexOutOfRange = True"
| "is_panic NilDereference = True"
| "is_panic TypeAssertionFailed = True"
| "is_panic CloseOfNilChannel = True"
| "is_panic CloseOfClosedChannel = True"
| "is_panic e = False"

text \<open>
  One goroutine runs until it blocks again or ends; \<open>None\<close> says that it cannot run now.
  \<^item> \<open>go func(w func()) { w(); wg.Done() }(wait)\<close>: the wait function returns when the
    chunk has arrived, which is for the environment to decide; then the counter drops.
  \<^item> \<open>wg.Wait()\<close> returns when the counter of the batch is 0. \<open>req.Root\<close> reads through
    the embedded \<open>*HandoverProof\<close> and panics when it is nil. If the finalizer that
    \<open>BatchDone\<close> returned fails, the goroutine returns without signalling; otherwise the
    proof is sent (the result of \<open>SendPriority\<close> is dropped) and the goroutine goes on to
    signal.
  \<^item> \<open>s.next <- struct{}{}\<close> needs room in the channel, whose capacity is 1.
  \<^item> \<open>select { case <-s.next: case <-s.quit: return }\<close>: \<open>s.quit\<close> is nil, and a receive
    from a nil channel never proceeds, so the goroutine goes on when it has received a
    signal from \<open>next\<close>, and then calls \<open>SendPriority\<close> (the result is dropped).
\<close>

fun run_goroutine :: "run \<Rightarrow> nat \<Rightarrow> goroutine \<Rightarrow> run option" where
  "run_goroutine r i (Started b (GoWaiter w)) =
     Some (r\<lparr>wg := (wg r)[b := wg r ! b - 1],
             goroutines := remove_nth i (goroutines r),
             log := log r @ [Resolved b]\<rparr>)"
| "run_goroutine r i (Started b (GoBatchDone k req n)) =
     (if b < length (wg r) \<and> wg r ! b = 0 then
        (case incoming (r_peer r) k of
           None \<Rightarrow> None
         | Some s \<Rightarrow>
             (case uk_HandoverProof req of
                None \<Rightarrow> Some (r\<lparr>panicked := Some NilDereference\<rparr>)
              | Some proof \<Rightarrow>
                  (case BatchDone (is_handler s) (uk_Stream req) (uk_From req) (uk_Hashes req)
                          (Root proof) of
                     None \<Rightarrow>
                       Some (r\<lparr>goroutines := (goroutines r)[i := Signalling b k],
                               log := log r @ [BatchDoneCalled b]\<rparr>)
                   | Some (Inl err) \<Rightarrow>
                       Some (r\<lparr>goroutines := remove_nth i (goroutines r),
                               log := log r @ [BatchDoneCalled b]\<rparr>)
                   | Some (Inr tp) \<Rightarrow>
                       Some (r\<lparr>r_peer := snd (SendPriority (r_peer r) (MTakeoverProof tp)
                                                (is_priority s)),
                               goroutines := (goroutines r)[i := Signalling b k],
                               log := log r @ [BatchDoneCalled b, TakeoverSent b]\<rparr>))))
      else None)"
| "run_goroutine r i (Signalling b k) =
     (case incoming (r_peer r) k of
        None \<Rightarrow> None
      | Some s \<Rightarrow>
          if next_signals s < 1 then
            Some (r\<lparr>r_peer := set_signals (r_peer r) k s (next_signals s + 1),
                    goroutines := remove_nth i (goroutines r),
                    log := log r @ [Signalled k b]\<rparr>)
          else None)"
| "run_goroutine r i (Started b (GoSendWantedKeys k m)) =
     (case incoming (r_peer r) k of
        None \<Rightarrow> None
      | Some s \<Rightarrow>
          if 0 < next_signals s then
            Some (r\<lparr>r_peer := snd (SendPriority (set_signals (r_peer r) k s (next_signals s - 1))
                                     (MWantedKeys m) (is_priority s)),
                    goroutines := remove_nth i (goroutines r),
                    log := log r @ [WantedKeysSent k b m]\<rparr>)
          else None)"
| "run_goroutine r i (Started b t) = None"

text \<open>
  The scheduler either lets the dispatcher handle the next \<open>UnsyncedKeysMsg\<close>, which
  starts the goroutines of that offer, or lets the goroutine at a position run. A panic
  ends the program.
\<close>

datatype action = Handle UnsyncedKeysMsg | Run nat

fun step :: "run \<Rightarrow> action \<Rightarrow> run option" where
  "step r (Handle req) =
     (if panicked r \<noteq> None then None
      else
        (case handleUnsyncedKeysMsg (r_peer r) req of
           (err, p', started) \<Rightarrow>
             Some (r\<lparr>r_peer := p',
                     wg := wg r @ [length (filter is_waiter started)],
                     goroutines := goroutines r @ map (Started (length (wg r))) started,
                     panicked := (case err of
                                    None \<Rightarrow> None
                                  | Some e \<Rightarrow> if is_panic e then Some e else None)\<rparr>)))"
| "step r (Run i) =
     (if panicked r \<noteq> None \<or> length (goroutines r) \<le> i then None
      else run_goroutine r i (goroutines r ! i))"

fun exec :: "run \<Rightarrow> action list \<Rightarrow> run option" where
  "exec r [] = Some r"
| "exec r (a # as) = (case step r a of None \<Rightarrow> None | Some r' \<Rightarrow> exec r' as)"

text \<open>
  Two offers of one hash each on the live stream, the first of a hash that is needed and
  the second of a hash that is not, the replies to them, and a schedule: the first offer is handled and its reply sent with the signal of
  the registration; the second offer is handled, has no waiter, completes, signals, and its
  reply is sent.
\<close>

definition offer_proof :: HandoverProof where
  "offer_proof = \<lparr>Stream = ''live'', Start = 10, End = 11, Root = [], Sig = []\<rparr>"

definition offer_a :: UnsyncedKeysMsg where
  "offer_a =
     \<lparr>uk_Stream = ''live'', uk_Key = [], uk_From = 10, uk_To = 10, uk_Hashes = hash1,
      uk_HandoverProof = Some offer_proof\<rparr>"

definition offer_b :: UnsyncedKeysMsg where
  "offer_b =
     \<lparr>uk_Stream = ''live'', uk_Key = [], uk_From = 11, uk_To = 11, uk_Hashes = hash2,
      uk_HandoverProof = Some offer_proof\<rparr>"

definition reply_a :: WantedKeysMsg where
  "reply_a = \<lparr>wk_Stream = ''live'', wk_Key = [], wk_Want = [1], wk_From = 10, wk_To = 0\<rparr>"

definition reply_b :: WantedKeysMsg where
  "reply_b = \<lparr>wk_Stream = ''live'', wk_Key = [], wk_Want = [0], wk_From = 11, wk_To = 0\<rparr>"

definition start_run :: run where
  "start_run = \<lparr>r_peer = live_peer, wg = [], goroutines = [], panicked = None, log = []\<rparr>"

definition overtaking :: "action list" where
  "overtaking = [Handle offer_a, Run 2, Handle offer_b, Run 2, Run 2, Run 2]"

section \<open>The states of a peer's incoming streams\<close>






section \<open>The want bitvector of handleUnsyncedKeysMsg\<close>

lemma needLoop_exit:
  "length hashes div HashSize \<le> i \<Longrightarrow>
   needLoop s hashes i want waits consulted = Inr (want, waits, consulted)"
  by (subst needLoop.simps) simp

lemma needLoop_live_offer:
  "needLoop live_handler (hash1 @ hash2 @ hash3) 0 \<lparr>bv_len = 3, bv_b = [0]\<rparr> [] [] =
   Inr (\<lparr>bv_len = 3, bv_b = [1]\<rparr>, [1], [hash1])"
  by (subst needLoop.simps)
     (simp add: needLoop_exit hash1_def hash2_def hash3_def HashSize_def slice_def
        live_handler_def bv_Set_def)

text \<open>
  C1. The claim: the want bitvector sent back has bit \<open>i\<close> set exactly when \<open>NeedData\<close>
  returned a wait function for the \<open>i\<close>-th offered hash, and every offered hash is
  consulted once. The code, on the offer of three hashes of which the first and the third
  are needed: the loop counter advances by \<open>HashSize\<close> while its bound is the number of
  hashes, so only \<open>hash1\<close> is passed to \<open>NeedData\<close>, one waiter is started, and the reply
  carries the want byte 1 (bit 0 alone) although \<open>NeedData\<close> returns a wait function for
  the third hash as well.
\<close>

theorem handleUnsyncedKeysMsg_consults_first_hash_only:
  "snd (snd (handleUnsyncedKeysMsg live_peer live_offer)) =
     [GoWaiter 1, GoBatchDone ''live'' live_offer 1,
      GoSendWantedKeys ''live''
        \<lparr>wk_Stream = ''live'', wk_Key = [], wk_Want = [1], wk_From = 12, wk_To = 0\<rparr>]
   \<and> needLoop live_handler (uk_Hashes live_offer) 0 \<lparr>bv_len = 3, bv_b = [0]\<rparr> [] [] =
       Inr (\<lparr>bv_len = 3, bv_b = [1]\<rparr>, [1], [hash1])
   \<and> NeedData live_handler (hash_at (uk_Hashes live_offer) 2) = Some 3"
proof -
  have tasks: "snd (snd (handleUnsyncedKeysMsg live_peer live_offer)) =
     [GoWaiter 1, GoBatchDone ''live'' live_offer 1,
      GoSendWantedKeys ''live''
        \<lparr>wk_Stream = ''live'', wk_Key = [], wk_Want = [1], wk_From = 12, wk_To = 0\<rparr>]"
    using needLoop_live_offer
    by (simp add: handleUnsyncedKeysMsg_def getIncomingStreamer_def live_peer_def new_peer_def
          live_offer_def bv_New_def HashSize_def nextBatch_def bv_Bytes_def
          hash1_def hash2_def hash3_def)
  have third: "NeedData live_handler (hash_at (uk_Hashes live_offer) 2) = Some 3"
    by (simp add: live_handler_def live_offer_def hash_at_def HashSize_def
          hash1_def hash2_def hash3_def)
  show ?thesis
    using tasks third needLoop_live_offer by (simp add: live_offer_def)
qed

section \<open>The deliveries of handleWantedKeysMsg\<close>

lemma slice_hash_at:
  "i < length hashes div HashSize \<Longrightarrow>
   slice hashes (i * HashSize) (HashSize + i * HashSize) = Inr (hash_at hashes i)"
proof -
  assume "i < length hashes div HashSize"
  then have "Suc i \<le> length hashes div HashSize" by simp
  then have "Suc i * HashSize \<le> length hashes div HashSize * HashSize"
    by (rule mult_le_mono1)
  also have "\<dots> \<le> length hashes" by simp
  finally show ?thesis
    by (simp add: slice_def hash_at_def add.commute)
qed

lemma enqueue_all_nil: "enqueue_all self p [] = self"
  by (simp add: enqueue_all_def)

lemma Deliver_full:
  "room self p = 0 \<Longrightarrow> Deliver self chunk p = (Some QueueFull, self)"
  by (auto simp: room_def Deliver_def pq_Push_def Let_def)

lemma Deliver_room:
  "0 < room self p \<Longrightarrow>
   Deliver self chunk p =
     (None, enqueue_all self p
        [MChunkDelivery \<lparr>cd_Key = Key chunk, cd_SData = SData chunk, cd_Id = 0\<rparr>])"
  by (auto simp: room_def Deliver_def pq_Push_def Let_def enqueue_all_def split: if_splits)

lemma room_enqueue_all:
  "room (enqueue_all self p ms) p = room self p - length ms"
  by (auto simp: room_def enqueue_all_def)

lemma enqueue_all_twice:
  "enqueue_all (enqueue_all self p ms) p ms' = enqueue_all self p (ms @ ms')"
  by (cases "unat p < length (Queues (pq self))")
     (auto simp: enqueue_all_def list_update_beyond)

text \<open>The loop, from any peer and any indices inside the batch that are still to visit.\<close>

lemma deliverLoop_char:
  "\<forall>i\<in>set is. i < length hashes div HashSize \<Longrightarrow>
   deliverLoop self s hashes want is fetched =
     (let wanted = wanted_indices want is;
          served = served_indices s hashes wanted;
          r = room self (os_priority s)
      in (if r < length served then Some QueueFull
          else if length served < length wanted then Some NotFound else None,
          enqueue_all self (os_priority s) (map (delivery_of s hashes) (take r served)),
          fetched @ map (hash_at hashes) (take (Suc r) (take (Suc (length served)) wanted))))"
proof (induction "is" arbitrary: self fetched)
  case Nil
  then show ?case
    by (simp add: wanted_indices_def served_indices_def enqueue_all_nil)
next
  case (Cons i rest)
  then have i: "i < length hashes div HashSize"
    and rest: "\<forall>i\<in>set rest. i < length hashes div HashSize" by simp_all
  note IH = Cons.IH [OF rest]
  show ?case
  proof (cases "bv_Get want i")
    case False
    then show ?thesis
      using IH by (simp add: wanted_indices_def)
  next
    case True
    show ?thesis
    proof (cases "GetData (os_handler s) (hash_at hashes i)")
      case None
      then show ?thesis
        using True i
        by (simp add: slice_hash_at wanted_indices_def served_indices_def enqueue_all_nil)
    next
      case (Some data)
      show ?thesis
      proof (cases "room self (os_priority s)")
        case 0
        then show ?thesis
          using True i Some
          by (simp add: slice_hash_at wanted_indices_def served_indices_def enqueue_all_nil
                Deliver_full)
      next
        case (Suc r)
        then have pos: "0 < room self (os_priority s)" by simp
        show ?thesis
          using True i Some Suc
          by (simp add: slice_hash_at wanted_indices_def served_indices_def
                Deliver_room [OF pos] IH room_enqueue_all enqueue_all_twice Let_def
                NewChunk_def delivery_of_def)
      qed
    qed
  qed
qed

lemma upt_0_3: "[0..<3] = [0, 1, 2]"
  by (simp add: upt_rec)

text \<open>
  C3, as stated: for each set bit \<open>i\<close>, \<open>GetData\<close> is called on the \<open>i\<close>-th hash and, when
  it returns data, one delivery for that hash is enqueued. It fails on the batch
  \<open>hash1, hash2, hash3\<close> with the bits 0 and 1 wanted: \<open>GetData\<close> has nothing for
  \<open>hash1\<close>, the handler returns "not found" at bit 0, and although bit 1 is set and
  \<open>GetData\<close> has data for \<open>hash2\<close>, \<open>GetData\<close> is never called on \<open>hash2\<close> and no
  delivery is enqueued for it.
\<close>

theorem handleWantedKeysMsg_not_found_skips_later_bits:
  "bv_Get \<lparr>bv_len = 3, bv_b = [3]\<rparr> 1
   \<and> GetData sync_source (hash_at (hash1 @ hash2 @ hash3) 1) = Some [42]
   \<and> handleWantedKeysMsg wanted_peer (want_reply [3]) =
       (Some NotFound, wanted_peer, [GoSendUnsyncedKeys ''sync'' 12 0], [hash1])"
  by (simp add: bv_Get_def sync_source_def hash_at_def HashSize_def hash1_def hash2_def hash3_def
        handleWantedKeysMsg_def wanted_peer_def want_reply_def getOutgoingStreamer_def
        bv_NewFromBytes_def upt_0_3 slice_def new_peer_def Let_def)

text \<open>
  C3, amended. For a registered outgoing stream and a well-formed want vector over the
  current batch, the handler visits the set bits in ascending order and stops at the first
  one for which \<open>GetData\<close> returns nil (the error is "not found") or for which the priority
  level has no room left (the error is that of the queue). For the set bits before that
  point, and for no other bit, one delivery with the key \<open>hash_i\<close> and the data of
  \<open>GetData\<close> is appended to the handler's priority level, in the order of the bits;
  \<open>GetData\<close> is called once for each of them and for the bit at which the handler stops,
  and for no other hash.
\<close>

theorem handleWantedKeysMsg_delivers_until_first_failure:
  assumes "getOutgoingStreamer self (wk_Stream req) = Inr s"
    and "bv_NewFromBytes (wk_Want req) (int (length (currentBatch s) div HashSize)) = Inr want"
  shows "handleWantedKeysMsg self req =
     (let hashes = currentBatch s;
          wanted = wanted_indices want [0..<length hashes div HashSize];
          served = served_indices s hashes wanted;
          r = room self (os_priority s)
      in (if r < length served then Some QueueFull
          else if length served < length wanted then Some NotFound else None,
          enqueue_all self (os_priority s) (map (delivery_of s hashes) (take r served)),
          [GoSendUnsyncedKeys (wk_Stream req) (wk_From req) (wk_To req)],
          map (hash_at hashes) (take (Suc r) (take (Suc (length served)) wanted))))"
proof -
  have bound: "\<forall>i\<in>set [0..<length (currentBatch s) div HashSize].
                 i < length (currentBatch s) div HashSize"
    by simp
  show ?thesis
    using assms deliverLoop_char [OF bound, of self s want "[]"]
    by (simp add: handleWantedKeysMsg_def Let_def)
qed

text \<open>With the bits 1 and 2 wanted, \<open>hash2\<close> is delivered and the handler fails at
  \<open>hash3\<close>; the delivery of \<open>hash2\<close> stays in the queue.\<close>

theorem handleWantedKeysMsg_delivers_until_first_failure_witness:
  "handleWantedKeysMsg wanted_peer (want_reply [6]) =
     (Some NotFound,
      enqueue_all wanted_peer Mid
        [MChunkDelivery \<lparr>cd_Key = hash2, cd_SData = Some [42], cd_Id = 0\<rparr>],
      [GoSendUnsyncedKeys ''sync'' 12 0], [hash2, hash3])"
proof -
  let ?s = "\<lparr>os_handler = sync_source, os_priority = Mid, currentBatch = hash1 @ hash2 @ hash3\<rparr>"
  have a: "getOutgoingStreamer wanted_peer (wk_Stream (want_reply [6])) = Inr ?s"
    by (simp add: getOutgoingStreamer_def wanted_peer_def want_reply_def)
  have b: "bv_NewFromBytes (wk_Want (want_reply [6]))
             (int (length (currentBatch ?s) div HashSize)) = Inr \<lparr>bv_len = 3, bv_b = [6]\<rparr>"
    by (simp add: bv_NewFromBytes_def want_reply_def HashSize_def hash1_def hash2_def hash3_def)
  show ?thesis
    using handleWantedKeysMsg_delivers_until_first_failure [OF a b]
    by (simp add: Let_def HashSize_def hash1_def hash2_def hash3_def upt_0_3 wanted_indices_def
          bv_Get_def served_indices_def hash_at_def sync_source_def room_def wanted_peer_def
          new_peer_def pq_New_def PriorityQueue_def PriorityQueueCap_def Mid_def delivery_of_def
          want_reply_def)
qed

section \<open>The keys of the per-peer maps\<close>

lemma served_peer_eq:
  "served_peer = (new_peer 7)\<lparr>outgoing := [''synck'' \<mapsto> served_os]\<rparr>"
  by (simp add: served_peer_def handleSubscribeMsg_def sync_registry_def GetOutgoingStreamer_def
        subscribe_k_def setOutgoingStreamer_def new_peer_def Let_def served_os_def)

text \<open>
  C5. The claim: both maps are keyed by \<open>name||key\<close> and every later lookup uses the same
  composite key, so the handler of a subscription with a non-empty key is found. The code,
  for the stream \<open>sync\<close> with the key \<open>k\<close>: \<open>handleSubscribeMsg\<close> registers the outgoing
  handler under \<open>synck\<close>, and the lookups of \<open>handleWantedKeysMsg\<close> and
  \<open>handleTakeoverProofMsg\<close>, made under \<open>req.Stream\<close> alone, fail with "stream 'sync' not
  provided"; \<open>Subscribe\<close> registers the incoming handler under \<open>sync\<close>, not under
  \<open>synck\<close>.
\<close>

theorem lookups_miss_composite_key:
  "handleSubscribeMsg sync_registry (new_peer 7) subscribe_k =
     (None, served_peer, [GoSendUnsyncedKeys ''synck'' 0 0])
   \<and> outgoing served_peer ''synck'' = Some served_os
   \<and> fst (handleWantedKeysMsg served_peer
            \<lparr>wk_Stream = ''sync'', wk_Key = ''k'', wk_Want = [], wk_From = 0, wk_To = 0\<rparr>) =
       Some (StreamNotProvided ''sync'')
   \<and> handleTakeoverProofMsg served_peer
        \<lparr>Stream = ''sync'', Start = 0, End = 0, Root = [], Sig = []\<rparr> =
       Some (StreamNotProvided ''sync'')
   \<and> fst (Subscribe sync_registry 7 ''sync'' ''k'' 0 0 Mid False) = None
   \<and> (case peers (snd (Subscribe sync_registry 7 ''sync'' ''k'' 0 0 Mid False)) 7 of
         None \<Rightarrow> False
       | Some p \<Rightarrow> incoming p ''synck'' = None \<and> incoming p ''sync'' \<noteq> None)"
proof -
  have out: "handleSubscribeMsg sync_registry (new_peer 7) subscribe_k =
               (None, served_peer, [GoSendUnsyncedKeys ''synck'' 0 0])
             \<and> outgoing served_peer ''synck'' = Some served_os
             \<and> fst (handleWantedKeysMsg served_peer
                      \<lparr>wk_Stream = ''sync'', wk_Key = ''k'', wk_Want = [], wk_From = 0,
                       wk_To = 0\<rparr>) = Some (StreamNotProvided ''sync'')
             \<and> handleTakeoverProofMsg served_peer
                  \<lparr>Stream = ''sync'', Start = 0, End = 0, Root = [], Sig = []\<rparr> =
                 Some (StreamNotProvided ''sync'')"
    by (simp add: served_peer_eq)
       (simp add: handleSubscribeMsg_def sync_registry_def GetOutgoingStreamer_def subscribe_k_def
          setOutgoingStreamer_def new_peer_def handleWantedKeysMsg_def handleTakeoverProofMsg_def
          getOutgoingStreamer_def Let_def served_os_def)
  have inc: "fst (Subscribe sync_registry 7 ''sync'' ''k'' 0 0 Mid False) = None
             \<and> (case peers (snd (Subscribe sync_registry 7 ''sync'' ''k'' 0 0 Mid False)) 7 of
                   None \<Rightarrow> False
                 | Some p \<Rightarrow> incoming p ''synck'' = None \<and> incoming p ''sync'' \<noteq> None)"
    by (simp add: Subscribe_def sync_registry_def GetIncomingStreamer_def getPeer_def
          setIncomingStreamer_def new_peer_def Let_def SendPriority_def pq_Push_def pq_New_def
          Mid_def PriorityQueue_def PriorityQueueCap_def)
  from out inc show ?thesis by simp
qed

section \<open>The message of SendUnsyncedKeys\<close>

text \<open>
  C6. The claim: the \<open>UnsyncedKeysMsg\<close> enqueued carries the stream name and key beside
  the range, the hashes and the proof. The code, for the handler registered for the stream
  \<open>sync\<close> with the key \<open>k\<close>: the hashes become the current batch and the message is
  enqueued at the handler's priority with the range, the hashes and the proof of
  \<open>SetNextBatch\<close>, but its \<open>Stream\<close> and \<open>Key\<close> are empty; a peer that has
  subscribed to \<open>sync\<close> finds no handler for such a message.
\<close>

theorem SendUnsyncedKeys_omits_stream_identity:
  "outgoing served_peer (sub_Stream subscribe_k @ sub_Key subscribe_k) = Some served_os
   \<and> fst (SendUnsyncedKeys served_peer served_os 0 0) = None
   \<and> currentBatch (fst (snd (SendUnsyncedKeys served_peer served_os 0 0))) =
       hash1 @ hash2 @ hash3
   \<and> Queues (pq (snd (snd (SendUnsyncedKeys served_peer served_os 0 0)))) ! unat Mid =
       [MUnsyncedKeys \<lparr>uk_Stream = [], uk_Key = [], uk_From = 10, uk_To = 12,
          uk_Hashes = hash1 @ hash2 @ hash3, uk_HandoverProof = None\<rparr>]
   \<and> fst (handleUnsyncedKeysMsg dup_peer
            \<lparr>uk_Stream = [], uk_Key = [], uk_From = 10, uk_To = 12,
             uk_Hashes = hash1 @ hash2 @ hash3, uk_HandoverProof = None\<rparr>) =
       Some (StreamNotProvided [])"
  by (simp add: served_peer_eq served_os_def SendUnsyncedKeys_def sync_source_def SendPriority_def
        pq_Push_def pq_New_def new_peer_def Mid_def PriorityQueue_def PriorityQueueCap_def
        subscribe_k_def handleUnsyncedKeysMsg_def getIncomingStreamer_def dup_peer_def)


section \<open>Duplicate registration\<close>



section \<open>The order of write and close in the receive loop\<close>

lemma put_before_close_put:
  "put_before_close es \<Longrightarrow> put_before_close (es @ [EvPut c])"
  by (induction es rule: put_before_close.induct) simp_all

lemma put_before_close_put_close:
  "put_before_close es \<Longrightarrow> ReqC c = Some ch \<Longrightarrow> put_before_close (es @ [EvPut c, EvClose ch])"
  by (induction es rule: put_before_close.induct) simp_all

lemma processReceived_order:
  "put_before_close (events st) \<Longrightarrow> put_before_close (events (snd (processReceived st req)))"
  by (auto simp: processReceived_def Let_def put_before_close_put put_before_close_put_close
        split: sum.splits option.splits)

lemma processReceivedChunks_order:
  "put_before_close (events st) \<Longrightarrow>
   put_before_close (events (snd (processReceivedChunks st reqs)))"
proof (induction reqs arbitrary: st)
  case Nil
  then show ?case by simp
next
  case (Cons req reqs)
  from Cons.prems have step: "put_before_close (events (snd (processReceived st req)))"
    by (rule processReceived_order)
  show ?case
  proof (cases "processReceived st req")
    case (Pair err st')
    with step have st': "put_before_close (events st')" by simp
    show ?thesis
      using Pair st' Cons.IH [OF st'] by (cases err) simp_all
  qed
qed

lemma hash_distinct:
  "hash2 \<noteq> hash1" "hash2 \<noteq> hash3" "hash3 \<noteq> hash1" "hash1 \<noteq> hash3"
  by (simp_all add: hash1_def hash2_def hash3_def)

text \<open>
  C8. The receive loop, at any delivery it takes from \<open>receiveC\<close>, in any state and
  whatever deliveries follow:
  \<^item> when the lookup of the delivery's key fails, the loop goes on with the next delivery
    in the same state: nothing is written and nothing is closed;
  \<^item> when the lookup finds a chunk whose channel is open, the loop goes on in the state
    in which the chunk with the delivered data has been written to the store and then,
    after the write, the chunk's channel has been closed;
  \<^item> when the lookup finds a chunk whose channel is nil or closed already, the close
    panics, after the write and without a close.
  So over any sequence of deliveries every close directly follows the write of the chunk
  that owns the channel, and no close comes before its write.
\<close>

theorem processReceivedChunks_put_before_close:
  "(db_get (rs_db st) (cd_Key req) = Inl e \<longrightarrow>
      processReceivedChunks st (req # reqs) = processReceivedChunks st reqs)
   \<and> (db_get (rs_db st) (cd_Key req') = Inr chunk \<longrightarrow> ReqC chunk = Some ch \<longrightarrow>
        ch \<notin> closed st \<longrightarrow>
        processReceivedChunks st (req' # reqs') =
          processReceivedChunks
            (st\<lparr>rs_db := db_put (rs_db st) (chunk\<lparr>SData := cd_SData req'\<rparr>),
                closed := insert ch (closed st),
                events := events st @ [EvPut (chunk\<lparr>SData := cd_SData req'\<rparr>), EvClose ch]\<rparr>)
            reqs')
   \<and> (db_get (rs_db st) (cd_Key req'') = Inr chunk' \<longrightarrow>
        (case ReqC chunk' of None \<Rightarrow> True | Some c \<Rightarrow> c \<in> closed st) \<longrightarrow>
        processReceivedChunks st (req'' # reqs'') =
          (Some (case ReqC chunk' of
                   None \<Rightarrow> CloseOfNilChannel
                 | Some c \<Rightarrow> CloseOfClosedChannel),
           st\<lparr>rs_db := db_put (rs_db st) (chunk'\<lparr>SData := cd_SData req''\<rparr>),
               events := events st @ [EvPut (chunk'\<lparr>SData := cd_SData req''\<rparr>)]\<rparr>))
   \<and> (put_before_close (events st) \<longrightarrow>
        put_before_close (events (snd (processReceivedChunks st reqs))))"
  by (auto simp: processReceived_def Let_def processReceivedChunks_order split: option.splits)

text \<open>
  The loop takes a delivery for \<open>hash2\<close>, which the store does not know, and then one
  for \<open>hash1\<close>: it ends with the write of \<open>hash1\<close> followed by the close of channel 0.
  On a delivery for \<open>hash3\<close>, whose chunk has no channel, it panics after the write.
\<close>

theorem processReceivedChunks_put_before_close_witness:
  "processReceivedChunks recv_state [delivery_for hash2, delivery_for hash1] =
     (None,
      recv_state\<lparr>rs_db := db_put (rs_db recv_state) (pending_chunk\<lparr>SData := Some [42]\<rparr>),
                 closed := {0},
                 events := [EvPut (pending_chunk\<lparr>SData := Some [42]\<rparr>), EvClose 0]\<rparr>)
   \<and> processReceivedChunks recv_state [delivery_for hash3, delivery_for hash1] =
       (Some CloseOfNilChannel,
        recv_state\<lparr>rs_db := db_put (rs_db recv_state) (stored_chunk\<lparr>SData := Some [42]\<rparr>),
                   events := [EvPut (stored_chunk\<lparr>SData := Some [42]\<rparr>)]\<rparr>)
   \<and> put_before_close
        (events (snd (processReceivedChunks recv_state [delivery_for hash2, delivery_for hash1])))"
proof -
  have miss: "db_get (rs_db recv_state) (cd_Key (delivery_for hash2)) = Inl ChunkNotFound"
    by (simp add: recv_state_def delivery_for_def db_get_def hash_distinct)
  have hit: "db_get (rs_db recv_state) (cd_Key (delivery_for hash1)) = Inr pending_chunk"
    "ReqC pending_chunk = Some 0" "0 \<notin> closed recv_state"
    by (simp_all add: recv_state_def delivery_for_def db_get_def hash_distinct pending_chunk_def
          NewChunk_def)
  have nil: "db_get (rs_db recv_state) (cd_Key (delivery_for hash3)) = Inr stored_chunk"
    "ReqC stored_chunk = None"
    by (simp_all add: recv_state_def delivery_for_def db_get_def hash_distinct stored_chunk_def
          NewChunk_def)
  have ord: "put_before_close (events recv_state)"
    by (simp add: recv_state_def)
  note at_hash1 = processReceivedChunks_put_before_close
      [where st = recv_state and req = "delivery_for hash2" and e = ChunkNotFound
         and reqs = "[delivery_for hash2, delivery_for hash1]"
         and req' = "delivery_for hash1" and chunk = pending_chunk and ch = 0 and reqs' = "[]"
         and req'' = "delivery_for hash3" and chunk' = stored_chunk
         and reqs'' = "[delivery_for hash1]"]
  note at_hash2 = processReceivedChunks_put_before_close
      [where st = recv_state and req = "delivery_for hash2" and e = ChunkNotFound
         and reqs = "[delivery_for hash1]"]
  from at_hash2 miss
  have a: "processReceivedChunks recv_state [delivery_for hash2, delivery_for hash1] =
             processReceivedChunks recv_state [delivery_for hash1]"
    by blast
  from at_hash1 hit
  have b: "processReceivedChunks recv_state [delivery_for hash1] =
      (None,
       recv_state\<lparr>rs_db := db_put (rs_db recv_state) (pending_chunk\<lparr>SData := Some [42]\<rparr>),
                  closed := {0},
                  events := [EvPut (pending_chunk\<lparr>SData := Some [42]\<rparr>), EvClose 0]\<rparr>)"
    by (simp add: delivery_for_def recv_state_def del: processReceivedChunks.simps(2))
  from at_hash1 nil
  have c: "processReceivedChunks recv_state [delivery_for hash3, delivery_for hash1] =
       (Some CloseOfNilChannel,
        recv_state\<lparr>rs_db := db_put (rs_db recv_state) (stored_chunk\<lparr>SData := Some [42]\<rparr>),
                   events := [EvPut (stored_chunk\<lparr>SData := Some [42]\<rparr>)]\<rparr>)"
    by (simp add: delivery_for_def recv_state_def del: processReceivedChunks.simps(2))
  from at_hash1 ord
  have d: "put_before_close
        (events (snd (processReceivedChunks recv_state [delivery_for hash2, delivery_for hash1])))"
    by blast
  from a b c d show ?thesis by simp
qed

section \<open>The store on the error path of handleRetrieveRequestMsg\<close>

text \<open>
  C9. When the retrieve-request stream is not registered on the peer, the handler returns
  the lookup error, and the peer it leaves has the store that \<open>getOrCreateRequest\<close>
  returned: nothing is undone. For a key that was absent, that store holds the new
  placeholder with its fresh channel.
\<close>

theorem handleRetrieveRequestMsg_store_changed_on_error:
  assumes "outgoing self retrieveRequestStream = None"
  shows "handleRetrieveRequestMsg retrieveRequestStream conns self req =
           (Some (StreamNotProvided retrieveRequestStream),
            self\<lparr>dbAccess := snd (getOrCreateRequest (dbAccess self) (rr_Key req))\<rparr>, conns, [])
         \<and> (chunks (dbAccess self) (rr_Key req) = None \<longrightarrow>
              chunks (snd (getOrCreateRequest (dbAccess self) (rr_Key req))) (rr_Key req) =
                Some (NewChunk (rr_Key req) (Some (fresh_chan (dbAccess self)))))"
  using assms
  by (auto simp: handleRetrieveRequestMsg_def getOutgoingStreamer_def Let_def
        getOrCreateRequest_def split: prod.splits option.splits)

theorem handleRetrieveRequestMsg_store_changed_on_error_witness:
  "handleRetrieveRequestMsg ''RETRIEVE_REQUEST'' [] (new_peer 7) \<lparr>rr_Key = hash1\<rparr> =
     (Some (StreamNotProvided ''RETRIEVE_REQUEST''),
      (new_peer 7)\<lparr>dbAccess := \<lparr>chunks = [hash1 \<mapsto> NewChunk hash1 (Some 0)], fresh_chan = 1\<rparr>\<rparr>,
      [], [])
   \<and> chunks (dbAccess (new_peer 7)) hash1 = None
   \<and> chunks (snd (getOrCreateRequest (dbAccess (new_peer 7)) hash1)) hash1 =
       Some (NewChunk hash1 (Some 0))"
  using handleRetrieveRequestMsg_store_changed_on_error
          [of "new_peer 7" "''RETRIEVE_REQUEST''" "[]" "\<lparr>rr_Key = hash1\<rparr>"]
  by (simp add: new_peer_def empty_db_def getOrCreateRequest_def Let_def)

section \<open>The result of Retrieve\<close>

lemma SendPriority_failed:
  "fst (SendPriority p m priority) = Some e \<Longrightarrow> snd (SendPriority p m priority) = p"
  by (auto simp: SendPriority_def split: sum.splits)

text \<open>
  C10. \<open>Retrieve\<close> returns nil for every chunk and every enumeration of the overlay: when
  no peer is connected nothing is sent, and when the push on the first peer's queue fails,
  the peers are as before and the result is nil all the same.
\<close>

theorem Retrieve_returns_nil:
  "fst (Retrieve conns chunk) = None
   \<and> Retrieve [] chunk = (None, [])
   \<and> (fst (SendPriority p (MRetrieveRequest \<lparr>rr_Key = Key chunk\<rparr>) Top) = Some e \<longrightarrow>
        Retrieve (p # ps) chunk = (None, p # ps))"
  by (auto simp: Retrieve_def SendPriority_failed)

theorem Retrieve_returns_nil_witness:
  "fst (SendPriority full_peer (MRetrieveRequest \<lparr>rr_Key = hash1\<rparr>) Top) = Some QueueFull
   \<and> Retrieve [full_peer] pending_chunk = (None, [full_peer])"
  using Retrieve_returns_nil [of "[full_peer]" pending_chunk full_peer QueueFull "[]"]
  by (simp add: full_peer_def SendPriority_def pq_Push_def Top_def PriorityQueueCap_def
        pending_chunk_def NewChunk_def)


section \<open>The gate on the WantedKeys reply\<close>

lemma needLoop_offer_a:
  "needLoop live_handler hash1 0 \<lparr>bv_len = 1, bv_b = [0]\<rparr> [] [] =
   Inr (\<lparr>bv_len = 1, bv_b = [1]\<rparr>, [1], [hash1])"
  by (subst needLoop.simps)
     (simp add: needLoop_exit hash1_def hash2_def hash3_def HashSize_def slice_def
        live_handler_def bv_Set_def)

lemma needLoop_offer_b:
  "needLoop live_handler hash2 0 \<lparr>bv_len = 1, bv_b = [0]\<rparr> [] [] =
   Inr (\<lparr>bv_len = 1, bv_b = [0]\<rparr>, [], [hash2])"
  by (subst needLoop.simps)
     (simp add: needLoop_exit hash1_def hash2_def hash3_def HashSize_def slice_def
        live_handler_def)

lemma handle_offer_a:
  assumes "incoming p ''live'' = Some s" and "is_handler s = live_handler" and "live s"
  shows "handleUnsyncedKeysMsg p offer_a =
     (None, p\<lparr>incoming := (incoming p)(''live'' \<mapsto> s\<lparr>sessionAt := 10\<rparr>)\<rparr>,
      [GoWaiter 1, GoBatchDone ''live'' offer_a 1, GoSendWantedKeys ''live'' reply_a])"
  using assms needLoop_offer_a
  by (simp add: handleUnsyncedKeysMsg_def getIncomingStreamer_def offer_a_def
        bv_New_def HashSize_def nextBatch_def bv_Bytes_def hash1_def hash2_def hash3_def
        reply_a_def)

lemma handle_offer_b:
  assumes "incoming p ''live'' = Some s" and "is_handler s = live_handler" and "live s"
  shows "handleUnsyncedKeysMsg p offer_b =
     (None, p\<lparr>incoming := (incoming p)(''live'' \<mapsto> s\<lparr>sessionAt := 11\<rparr>)\<rparr>,
      [GoBatchDone ''live'' offer_b 0, GoSendWantedKeys ''live'' reply_b])"
  using assms needLoop_offer_b
  by (simp add: handleUnsyncedKeysMsg_def getIncomingStreamer_def offer_b_def
        bv_New_def HashSize_def nextBatch_def bv_Bytes_def hash1_def hash2_def hash3_def
        reply_b_def)

lemma offer_b_fields:
  "uk_HandoverProof offer_b = Some offer_proof" "uk_Stream offer_b = ''live''"
  "uk_From offer_b = 11" "uk_Hashes offer_b = hash2"
  by (simp_all add: offer_b_def)

lemma exec_overtaking_result:
  "(case exec start_run overtaking of
      None \<Rightarrow> False
    | Some r \<Rightarrow>
        log r = [WantedKeysSent ''live'' 0 reply_a, BatchDoneCalled 1, Signalled ''live'' 1,
                 WantedKeysSent ''live'' 1 reply_b]
        \<and> wg r = [1, 0]
        \<and> goroutines r = [Started 0 (GoWaiter 1), Started 0 (GoBatchDone ''live'' offer_a 1)])"
  by (simp add: overtaking_def start_run_def live_peer_def new_peer_def handle_offer_a
        handle_offer_b offer_b_fields remove_nth_def set_signals_def SendPriority_def pq_Push_def pq_New_def
        Mid_def PriorityQueue_def PriorityQueueCap_def live_handler_def offer_proof_def)

text \<open>
  C2. The claim: the reply computed for an offer is sent only after \<open>next\<close> has been
  signalled, that is, only after every waiter of the previous batch has resolved and
  \<open>BatchDone\<close> has run for it. The code, on the schedule \<open>overtaking\<close>: the reply to the
  first offer is sent with the signal that the registration put on \<open>next\<close>; the second
  offer has no waiter, so its goroutine calls \<open>BatchDone\<close> and signals \<open>next\<close> at once,
  and the reply to the second offer is sent while the waiter of the first batch is still
  unresolved (the counter of the first batch is 1, its waiter and the goroutine that is to
  call \<open>BatchDone\<close> for it are the two that remain) and \<open>BatchDone\<close> has not been called
  for the first batch.
\<close>

theorem wanted_keys_overtake_previous_batch:
  "(case exec start_run overtaking of
      None \<Rightarrow> False
    | Some r \<Rightarrow>
        log r = [WantedKeysSent ''live'' 0 reply_a, BatchDoneCalled 1, Signalled ''live'' 1,
                 WantedKeysSent ''live'' 1 reply_b]
        \<and> wg r = [1, 0]
        \<and> goroutines r = [Started 0 (GoWaiter 1), Started 0 (GoBatchDone ''live'' offer_a 1)])"
  by (rule exec_overtaking_result)

section \<open>The gap chooser on a historical stream\<close>










end
